theory Spec2Isabelle
  imports Main "HOL-Library.Word"
begin

section \<open>GraphSentinel Voice: the data model of main.py\<close>

text \<open>
  A Python \<open>str\<close> is the list of its code points, so \<open>length\<close> is Python's
  \<open>len\<close> and a character above U+00FF is a list element like any other. \<open>str\<close>
  turns a literal of the source into such a list. A Python \<open>bytes\<close> value is a list
  of 8-bit words. A string is truthy iff it is not empty.
\<close>

type_synonym pystr = "nat list"

definition str :: "char list \<Rightarrow> pystr" where
  "str s = map of_char s"

type_synonym bytes = "8 word list"

text \<open>Python's \<open>str\<close> of an integer: the decimal digits, after a minus sign if negative.\<close>

fun digits :: "nat \<Rightarrow> pystr" where
  "digits n = (if n < 10 then [48 + n] else digits (n div 10) @ [48 + n mod 10])"

declare digits.simps [simp del]

definition str_int :: "int \<Rightarrow> pystr" where
  "str_int i = (if i < 0 then str ''-'' @ digits (nat (- i)) else digits (nat i))"

text \<open>
  Whether a string can be encoded as Latin-1, the encoding the web framework applies to
  every header value of a response: all code points are below 256.
\<close>

definition latin1 :: "pystr \<Rightarrow> bool" where
  "latin1 s = list_all (\<lambda>c. c < 256) s"

text \<open>The module-level configuration (lines 30 to 35), read once from the environment.\<close>

record config =
  ELEVENLABS_KEY :: pystr
  ELEVENLABS_VOICE :: pystr
  TWILIO_SID :: pystr
  TWILIO_TOKEN :: pystr
  TWILIO_FROM :: pystr
  TEAMS_WEBHOOK :: pystr

text \<open>
  The request models. The three classes share field names, so the fields carry the
  initial of their class.
\<close>

record VoiceRequest =
  v_message :: pystr
  v_language :: pystr
  v_threat_id :: "pystr option"

record CallRequest =
  c_to_number :: pystr
  c_message :: pystr
  c_threat_id :: "pystr option"

record TeamsRequest =
  t_message :: pystr
  t_threat_id :: "pystr option"
  t_include_audio :: bool

text \<open>
  Exceptions. \<open>HTTPException status detail\<close> is FastAPI's; \<open>OtherError\<close> is any other
  \<open>Exception\<close> (a transport failure or timeout of httpx, a body that is not JSON, an
  attribute error, a header value that does not encode), with a description.
\<close>

datatype exn = HTTPException int pystr | OtherError pystr

text \<open>
  The web framework's \<open>str\<close> of an exception: for an \<open>HTTPException\<close> the status,
  a colon and a space, and the detail; for the others their description.
\<close>

definition exception_str :: "exn \<Rightarrow> pystr" where
  "exception_str ex =
     (case ex of
        HTTPException c d \<Rightarrow> str_int c @ str '': '' @ d
      | OtherError m \<Rightarrow> m)"

text \<open>JSON values, for the body of the telephony provider's answer.\<close>

datatype json =
    JNull
  | JBool bool
  | JNum int
  | JStr pystr
  | JArr "json list"
  | JObj "(pystr \<times> json) list"

text \<open>
  An upstream response as the handlers read it: \<open>status_code\<close>, \<open>text\<close> (the field
  \<open>resp_text\<close>), \<open>content\<close>, and what \<open>json()\<close> gives (\<open>None\<close> when the body
  does not decode, so that \<open>json()\<close> raises).
\<close>

record response =
  status_code :: int
  resp_text :: pystr
  content :: bytes
  json_body :: "json option"

datatype http_outcome = Raised pystr | Responded response

text \<open>
  The card posted to the chat webhook: the fields that vary with the request. The other
  fields of the card are constants of the source.
\<close>

record card =
  activitySubtitle :: pystr
  time_fact :: pystr
  card_text :: pystr

text \<open>The three outbound POST requests the handlers issue.\<close>

datatype http_request =
    TtsPost pystr pystr pystr
  | CallsPost pystr "pystr \<times> pystr" pystr pystr pystr
  | WebhookPost pystr card

text \<open>
  What lies outside the program, fixed for one run: the \<open>n\<close>-th reading of
  \<open>datetime.now().strftime(fmt)\<close>, the outcome of the \<open>n\<close>-th outbound POST, and the
  library's \<open>str\<close> of an exception.
\<close>

record env =
  strftime_now :: "nat \<Rightarrow> pystr \<Rightarrow> pystr"
  http_post :: "nat \<Rightarrow> http_request \<Rightarrow> http_outcome"
  exc_str :: "exn \<Rightarrow> pystr"

text \<open>
  The mutable state of the process: the module-level \<open>audio_cache\<close> dictionary
  (line 38), the number of clock readings so far, and the requests sent so far.
\<close>

record world =
  audio_cache :: "pystr \<rightharpoonup> bytes"
  clock_reads :: nat
  posts :: "http_request list"

text \<open>The payloads the handlers return.\<close>

record capabilities =
  elevenlabs :: bool
  twilio :: bool
  teams :: bool

record root_result =
  service :: pystr
  status :: pystr
  caps :: capabilities

record voice_result =
  vr_threat_id :: pystr
  vr_audio_url :: pystr
  vr_duration_estimate :: nat

record audio_response =
  ar_content :: bytes
  ar_media_type :: pystr
  ar_content_disposition :: pystr

record call_result =
  cr_status :: pystr
  cr_call_sid :: "json option"
  cr_to :: pystr
  cr_threat_id :: pystr

record teams_result =
  tr_status :: pystr
  tr_threat_id :: pystr
  tr_channel :: pystr
  tr_audio_generated :: bool

datatype channel_entry =
    TeamsEntry teams_result
  | CallEntry call_result
  | VoiceEntry voice_result
  | ErrorEntry pystr

record alert_result =
  al_threat_id :: pystr
  al_channels :: "pystr \<rightharpoonup> channel_entry"

section \<open>The handlers\<close>

text \<open>
  Each handler is modelled as one uninterrupted run: it takes the state of the process
  and returns its result, or the exception it raises, with the state it leaves. Requests
  that interleave at an \<open>await\<close> are not modelled.
\<close>

text \<open>Truthiness of an \<open>Optional[str]\<close>: neither \<open>None\<close> nor the empty string.\<close>

definition truthy :: "pystr option \<Rightarrow> bool" where
  "truthy x = (case x of None \<Rightarrow> False | Some s \<Rightarrow> s \<noteq> [])"

text \<open>\<open>datetime.now().strftime(fmt)\<close>: one clock reading.\<close>

definition read_clock :: "env \<Rightarrow> pystr \<Rightarrow> world \<Rightarrow> pystr \<times> world" where
  "read_clock e fmt w =
     (strftime_now e (clock_reads w) fmt, w\<lparr>clock_reads := Suc (clock_reads w)\<rparr>)"

text \<open>
  \<open>threat_id or f"PFX-{datetime.now().strftime('%Y%m%d%H%M%S')}"\<close>: the given
  identifier when it is truthy (neither \<open>None\<close> nor empty); otherwise the clock is
  read. Python's \<open>or\<close> evaluates its right operand only in that case.
\<close>

definition or_timestamp ::
  "env \<Rightarrow> pystr \<Rightarrow> pystr option \<Rightarrow> world \<Rightarrow> pystr \<times> world" where
  "or_timestamp e pfx tid w =
     (if truthy tid then (the tid, w)
      else (let (ts, w') = read_clock e (str ''%Y%m%d%H%M%S'') w in (pfx @ ts, w')))"

text \<open>\<open>await client.post(...)\<close>: the request is sent and the outcome read.\<close>

definition post :: "env \<Rightarrow> http_request \<Rightarrow> world \<Rightarrow> http_outcome \<times> world" where
  "post e rq w = (http_post e (length (posts w)) rq, w\<lparr>posts := posts w @ [rq]\<rparr>)"

text \<open>\<open>audio_cache[threat_id] = b\<close> (line 112), the only write to the cache.\<close>

definition cache_store :: "pystr \<Rightarrow> bytes \<Rightarrow> world \<Rightarrow> world" where
  "cache_store threat_id b w = w\<lparr>audio_cache := (audio_cache w)(threat_id \<mapsto> b)\<rparr>"

text \<open>\<open>GET /\<close> (lines 62 to 72).\<close>

definition root :: "config \<Rightarrow> root_result" where
  "root cfg =
     \<lparr>service = str ''GraphSentinel Voice'',
      status = str ''operational'',
      caps = \<lparr>elevenlabs = (ELEVENLABS_KEY cfg \<noteq> []),
               twilio = (TWILIO_SID cfg \<noteq> [] \<and> TWILIO_TOKEN cfg \<noteq> []),
               teams = (TEAMS_WEBHOOK cfg \<noteq> [])\<rparr>\<rparr>"

text \<open>The request \<open>generate_voice\<close> sends (lines 92 to 107).\<close>

definition tts_request :: "config \<Rightarrow> VoiceRequest \<Rightarrow> http_request" where
  "tts_request cfg req =
     TtsPost (str ''https://api.elevenlabs.io/v1/text-to-speech/'' @ ELEVENLABS_VOICE cfg)
       (ELEVENLABS_KEY cfg) (v_message req)"

text \<open>\<open>POST /api/generate\<close> (lines 83 to 118).\<close>

definition generate_voice ::
  "config \<Rightarrow> env \<Rightarrow> VoiceRequest \<Rightarrow> world \<Rightarrow> (exn + voice_result) \<times> world" where
  "generate_voice cfg e req w0 =
     (if ELEVENLABS_KEY cfg = [] then
        (Inl (HTTPException 503 (str ''ElevenLabs not configured'')), w0)
      else
        (let (threat_id, w1) = or_timestamp e (str ''VOC-'') (v_threat_id req) w0;
             (out, w2) = post e (tts_request cfg req) w1
         in case out of
              Raised msg \<Rightarrow> (Inl (OtherError msg), w2)
            | Responded resp \<Rightarrow>
                if status_code resp \<noteq> 200 then
                  (Inl (HTTPException (status_code resp)
                          (str ''ElevenLabs error: '' @ resp_text resp)),
                   w2)
                else
                  (Inr \<lparr>vr_threat_id = threat_id,
                        vr_audio_url = str ''/api/audio/'' @ threat_id,
                        vr_duration_estimate = length (v_message req) div 15\<rparr>,
                   cache_store threat_id (content resp) w2)))"

text \<open>
  \<open>GET /api/audio/{threat_id}\<close> (lines 121 to 131). Building the \<open>Response\<close>
  encodes each header value as Latin-1, so a \<open>Content-Disposition\<close> value with a
  code point above 255 raises \<open>UnicodeEncodeError\<close> instead of returning.
\<close>

definition get_audio :: "world \<Rightarrow> pystr \<Rightarrow> exn + audio_response" where
  "get_audio w threat_id =
     (case audio_cache w threat_id of
        None \<Rightarrow> Inl (HTTPException 404 (str ''Audio not found''))
      | Some b \<Rightarrow>
          (let disposition = str ''inline; filename='' @ threat_id @ str ''.mp3''
           in if latin1 disposition then
                Inr \<lparr>ar_content = b,
                     ar_media_type = str ''audio/mpeg'',
                     ar_content_disposition = disposition\<rparr>
              else Inl (OtherError (str ''UnicodeEncodeError''))))"

text \<open>The markup and the request \<open>make_call\<close> sends (lines 146 to 161).\<close>

definition twiml :: "pystr \<Rightarrow> pystr" where
  "twiml message =
     [0x0A] @ str ''    <Response>'' @ [0x0A]
     @ str ''        <Say voice='' @ [0x22] @ str ''Polly.Vicki'' @ [0x22]
     @ str '' language='' @ [0x22] @ str ''de-DE'' @ [0x22] @ str ''>'' @ message
     @ str ''</Say>''
     @ [0x0A] @ str ''    </Response>'' @ [0x0A] @ str ''    ''"

definition calls_request :: "config \<Rightarrow> CallRequest \<Rightarrow> http_request" where
  "calls_request cfg req =
     CallsPost
       (str ''https://api.twilio.com/2010-04-01/Accounts/'' @ TWILIO_SID cfg
        @ str ''/Calls.json'')
       (TWILIO_SID cfg, TWILIO_TOKEN cfg)
       (c_to_number req) (TWILIO_FROM cfg) (twiml (c_message req))"

text \<open>
  \<open>call_data = resp.json()\<close> followed by \<open>call_data.get("sid")\<close>: the first raises on
  a body that is not JSON, the second on a value that is not an object; a missing key
  and a \<open>null\<close> value both give \<open>None\<close>.
\<close>

definition json_get_sid :: "response \<Rightarrow> exn + json option" where
  "json_get_sid resp =
     (case json_body resp of
        None \<Rightarrow> Inl (OtherError (str ''JSONDecodeError''))
      | Some (JObj kvs) \<Rightarrow>
          Inr (case map_of kvs (str ''sid'') of Some JNull \<Rightarrow> None | v \<Rightarrow> v)
      | Some _ \<Rightarrow> Inl (OtherError (str ''AttributeError'')))"

text \<open>\<open>POST /api/call\<close> (lines 134 to 173).\<close>

definition make_call ::
  "config \<Rightarrow> env \<Rightarrow> CallRequest \<Rightarrow> world \<Rightarrow> (exn + call_result) \<times> world" where
  "make_call cfg e req w0 =
     (if \<not> (TWILIO_SID cfg \<noteq> [] \<and> TWILIO_TOKEN cfg \<noteq> [] \<and> TWILIO_FROM cfg \<noteq> []) then
        (Inl (HTTPException 503 (str ''Twilio not configured'')), w0)
      else
        (case generate_voice cfg e
                \<lparr>v_message = c_message req, v_language = str ''de'', v_threat_id = c_threat_id req\<rparr>
                w0 of
           (Inl ex, w1) \<Rightarrow> (Inl ex, w1)
         | (Inr voice_result, w1) \<Rightarrow>
             (let (out, w2) = post e (calls_request cfg req) w1
              in case out of
                   Raised msg \<Rightarrow> (Inl (OtherError msg), w2)
                 | Responded resp \<Rightarrow>
                     if status_code resp \<notin> {200, 201} then
                       (Inl (HTTPException (status_code resp)
                               (str ''Twilio error: '' @ resp_text resp)),
                        w2)
                     else
                       (case json_get_sid resp of
                          Inl ex \<Rightarrow> (Inl ex, w2)
                        | Inr sid \<Rightarrow>
                            (Inr \<lparr>cr_status = str ''initiated'',
                                  cr_call_sid = sid,
                                  cr_to = c_to_number req,
                                  cr_threat_id = vr_threat_id voice_result\<rparr>,
                             w2)))))"

text \<open>\<open>POST /api/teams\<close> (lines 176 to 232).\<close>

definition send_teams ::
  "config \<Rightarrow> env \<Rightarrow> TeamsRequest \<Rightarrow> world \<Rightarrow> (exn + teams_result) \<times> world" where
  "send_teams cfg e req w0 =
     (if TEAMS_WEBHOOK cfg = [] then
        (Inl (HTTPException 503 (str ''Teams webhook not configured'')), w0)
      else
        (let (threat_id, w1) = or_timestamp e (str ''TMS-'') (t_threat_id req) w0
         in case (if t_include_audio req \<and> ELEVENLABS_KEY cfg \<noteq> [] then
                    (case generate_voice cfg e
                            \<lparr>v_message = t_message req, v_language = str ''de'',
                             v_threat_id = Some threat_id\<rparr> w1 of
                       (Inl ex, w2) \<Rightarrow> (Inl ex, w2)
                     | (Inr voice_result, w2) \<Rightarrow> (Inr (Some (vr_audio_url voice_result)), w2))
                  else (Inr None, w1)) of
              (Inl ex, w2) \<Rightarrow> (Inl ex, w2)
            | (Inr audio_url, w2) \<Rightarrow>
                (let (now, w3) = read_clock e (str ''%Y-%m-%d %H:%M:%S UTC'') w2;
                     crd = \<lparr>activitySubtitle = str ''Threat ID: '' @ threat_id,
                            time_fact = now,
                            card_text = t_message req\<rparr>;
                     (out, w4) = post e (WebhookPost (TEAMS_WEBHOOK cfg) crd) w3
                 in case out of
                      Raised msg \<Rightarrow> (Inl (OtherError msg), w4)
                    | Responded resp \<Rightarrow>
                        if status_code resp \<notin> {200, 201} then
                          (Inl (HTTPException (status_code resp)
                                  (str ''Teams error: '' @ resp_text resp)),
                           w4)
                        else
                          (Inr \<lparr>tr_status = str ''sent'',
                                tr_threat_id = threat_id,
                                tr_channel = str ''teams'',
                                tr_audio_generated = (audio_url \<noteq> None)\<rparr>,
                           w4))))"

text \<open>
  \<open>POST /api/alert\<close> (lines 235 to 277). Each of the three blocks is guarded by the
  channel name and a configuration value; inside a block every exception becomes an
  \<open>error\<close> entry under the channel's key.
\<close>

definition send_alert ::
  "config \<Rightarrow> env \<Rightarrow> pystr \<Rightarrow> pystr list \<Rightarrow> pystr option \<Rightarrow> pystr option \<Rightarrow> world
     \<Rightarrow> alert_result \<times> world" where
  "send_alert cfg e message channels phone threat_id0 w0 =
     (let results0 = Map.empty;
          (threat_id, w1) = or_timestamp e (str ''ALT-'') threat_id0 w0;
          (results1, w2) =
            (if str ''teams'' \<in> set channels \<and> TEAMS_WEBHOOK cfg \<noteq> [] then
               (case send_teams cfg e
                       \<lparr>t_message = message, t_threat_id = Some threat_id,
                        t_include_audio = True\<rparr> w1 of
                  (Inr r, w') \<Rightarrow> (results0(str ''teams'' \<mapsto> TeamsEntry r), w')
                | (Inl ex, w') \<Rightarrow> (results0(str ''teams'' \<mapsto> ErrorEntry (exc_str e ex)), w'))
             else (results0, w1));
          (results2, w3) =
            (if str ''call'' \<in> set channels \<and> truthy phone \<and> TWILIO_SID cfg \<noteq> [] then
               (case make_call cfg e
                       \<lparr>c_to_number = the phone, c_message = message,
                        c_threat_id = Some threat_id\<rparr> w2 of
                  (Inr r, w') \<Rightarrow> (results1(str ''call'' \<mapsto> CallEntry r), w')
                | (Inl ex, w') \<Rightarrow> (results1(str ''call'' \<mapsto> ErrorEntry (exc_str e ex)), w'))
             else (results1, w2));
          (results3, w4) =
            (if str ''voice'' \<in> set channels \<and> ELEVENLABS_KEY cfg \<noteq> [] then
               (case generate_voice cfg e
                       \<lparr>v_message = message, v_language = str ''de'',
                        v_threat_id = Some threat_id\<rparr> w3 of
                  (Inr r, w') \<Rightarrow> (results2(str ''voice'' \<mapsto> VoiceEntry r), w')
                | (Inl ex, w') \<Rightarrow> (results2(str ''voice'' \<mapsto> ErrorEntry (exc_str e ex)), w'))
             else (results2, w3))
      in (\<lparr>al_threat_id = threat_id, al_channels = results3\<rparr>, w4))"

text \<open>The state of a fresh process: an empty cache, no clock reading, nothing sent.\<close>

definition initial_world :: world where
  "initial_world = \<lparr>audio_cache = Map.empty, clock_reads = 0, posts = []\<rparr>"

text \<open>A run of cache writes, in order: what any sequence of handler calls does to the cache.\<close>

fun store_all :: "(pystr \<times> bytes) list \<Rightarrow> world \<Rightarrow> world" where
  "store_all [] w = w"
| "store_all ((k, b) # ops) w = store_all ops (cache_store k b w)"

section \<open>Sample configurations, environments and requests\<close>

definition cfg_none :: config where
  "cfg_none =
     \<lparr>ELEVENLABS_KEY = [], ELEVENLABS_VOICE = str ''21m00Tcm4TlvDq8ikWAM'', TWILIO_SID = [],
      TWILIO_TOKEN = [], TWILIO_FROM = [], TEAMS_WEBHOOK = []\<rparr>"

definition cfg_full :: config where
  "cfg_full =
     \<lparr>ELEVENLABS_KEY = str ''xi-key'', ELEVENLABS_VOICE = str ''21m00Tcm4TlvDq8ikWAM'',
      TWILIO_SID = str ''AC01'', TWILIO_TOKEN = str ''tok'', TWILIO_FROM = str ''+4930123456'',
      TEAMS_WEBHOOK = str ''https://hooks.example/teams''\<rparr>"

definition cfg_chat_only :: config where
  "cfg_chat_only = cfg_none\<lparr>TEAMS_WEBHOOK := str ''https://hooks.example/teams''\<rparr>"

definition cfg_chat_sid :: config where
  "cfg_chat_sid = cfg_chat_only\<lparr>TWILIO_SID := str ''AC01''\<rparr>"

definition cfg_no_sender :: config where
  "cfg_no_sender = cfg_full\<lparr>TWILIO_FROM := []\<rparr>"

definition cfg_no_speech :: config where
  "cfg_no_speech = cfg_full\<lparr>ELEVENLABS_KEY := []\<rparr>"

text \<open>
  Sample answers of the three providers: the audio of the speech provider, the created
  call of the telephony provider with its JSON body, its refusal, and the plain \<open>1\<close>
  of the chat webhook.
\<close>

definition resp_audio :: response where
  "resp_audio =
     \<lparr>status_code = 200, resp_text = str ''ID3'', content = [0x49, 0x44, 0x33],
      json_body = None\<rparr>"

definition call_created_body :: pystr where
  "call_created_body =
     str ''{'' @ [0x22] @ str ''sid'' @ [0x22] @ str '': '' @ [0x22] @ str ''CA77'' @ [0x22]
     @ str ''}''"

definition resp_call_created :: response where
  "resp_call_created =
     \<lparr>status_code = 201, resp_text = call_created_body,
      content = map of_nat call_created_body,
      json_body = Some (JObj [(str ''sid'', JStr (str ''CA77''))])\<rparr>"

definition resp_unauthorized :: response where
  "resp_unauthorized =
     \<lparr>status_code = 401, resp_text = str ''Authenticate'',
      content = map of_nat (str ''Authenticate''), json_body = None\<rparr>"

definition resp_teams_ok :: response where
  "resp_teams_ok =
     \<lparr>status_code = 200, resp_text = str ''1'', content = [0x31],
      json_body = Some (JNum 1)\<rparr>"

text \<open>A clock that stands at 2024-01-31 09:30:00, in the two formats the handlers ask for.\<close>

definition sample_strftime :: "nat \<Rightarrow> pystr \<Rightarrow> pystr" where
  "sample_strftime n fmt =
     (if fmt = str ''%Y%m%d%H%M%S'' then str ''20240131093000''
      else if fmt = str ''%Y-%m-%d %H:%M:%S UTC'' then str ''2024-01-31 09:30:00 UTC''
      else fmt)"

text \<open>Every provider accepts the request.\<close>

definition env_ok :: env where
  "env_ok =
     \<lparr>strftime_now = sample_strftime,
      http_post =
        (\<lambda>n rq. case rq of
                   TtsPost u k t \<Rightarrow> Responded resp_audio
                 | CallsPost u a t f m \<Rightarrow> Responded resp_call_created
                 | WebhookPost u c \<Rightarrow> Responded resp_teams_ok),
      exc_str = exception_str\<rparr>"

text \<open>The telephony provider answers 401, the others as before.\<close>

definition env_call_refused :: env where
  "env_call_refused =
     env_ok\<lparr>http_post :=
       (\<lambda>n rq. case rq of
                  CallsPost u a t f m \<Rightarrow> Responded resp_unauthorized
                | _ \<Rightarrow> http_post env_ok n rq)\<rparr>"

definition voice_req0 :: VoiceRequest where
  "voice_req0 =
     \<lparr>v_message = str ''Intrusion detected on node 7'', v_language = str ''de'',
      v_threat_id = Some (str ''VOC-TEST1'')\<rparr>"

text \<open>A request whose identifier is two code points above U+00FF.\<close>

definition voice_req_wide :: VoiceRequest where
  "voice_req_wide =
     \<lparr>v_message = str ''Intrusion detected on node 7'', v_language = str ''de'',
      v_threat_id = Some [0x8B66, 0x5831]\<rparr>"

definition call_req0 :: CallRequest where
  "call_req0 =
     \<lparr>c_to_number = str ''+4915112345678'', c_message = str ''Intrusion detected on node 7'',
      c_threat_id = None\<rparr>"

definition teams_req0 :: TeamsRequest where
  "teams_req0 =
     \<lparr>t_message = str ''Intrusion detected on node 7'', t_threat_id = None,
      t_include_audio = True\<rparr>"

section \<open>Literals, decimal numbers and Latin-1\<close>

lemma latin1_str: "latin1 (str s)"
proof -
  have "c < 256" if "c \<in> set (str s)" for c
  proof -
    from that obtain x where "c = of_char x"
      by (auto simp: str_def)
    moreover have "(of_char x :: nat) mod 256 = of_char x"
      by simp
    ultimately show ?thesis
      by (metis mod_less_divisor zero_less_numeral)
  qed
  then show ?thesis
    by (simp add: latin1_def list_all_iff)
qed

lemma str_eq_iff: "str a = str b \<longleftrightarrow> a = b"
  by (simp add: str_def inj_map_eq_map inj_of_char)

lemma latin1_append: "latin1 (a @ b) \<longleftrightarrow> latin1 a \<and> latin1 b"
  by (simp add: latin1_def)

lemma exception_str_503:
  "exception_str (HTTPException 503 d) = str ''503: '' @ d"
  by (simp add: exception_str_def str_int_def digits.simps [of 503] digits.simps [of 50]
      digits.simps [of 5] str_def)

section \<open>The Audio Cache\<close>

lemma store_all_other:
  "threat_id \<notin> fst ` set ops \<Longrightarrow>
     audio_cache (store_all ops w) threat_id = audio_cache w threat_id"
  by (induction ops w rule: store_all.induct) (auto simp: cache_store_def)

text \<open>
  The dictionary itself gives back what was put in, for every identifier: after a write
  under an identifier and any later writes under other identifiers, the entry of the
  identifier is the bytes written.
\<close>

lemma audio_cache_round_trip:
  assumes "threat_id \<notin> fst ` set ops"
  shows "audio_cache (store_all ops (cache_store threat_id b w)) threat_id = Some b"
proof -
  have "audio_cache (store_all ops (cache_store threat_id b w)) threat_id =
          audio_cache (cache_store threat_id b w) threat_id"
    using assms by (rule store_all_other)
  also have "\<dots> = Some b"
    by (simp add: cache_store_def)
  finally show ?thesis .
qed

text \<open>
  The retrieval endpoint returns those bytes when the identifier has no code point
  above 255.
\<close>

lemma get_audio_round_trip_latin1:
  assumes "threat_id \<notin> fst ` set ops" and "latin1 threat_id"
  shows "get_audio (store_all ops (cache_store threat_id b w)) threat_id =
           Inr \<lparr>ar_content = b, ar_media_type = str ''audio/mpeg'',
                ar_content_disposition =
                  str ''inline; filename='' @ threat_id @ str ''.mp3''\<rparr>"
  using assms(2)
  by (simp add: get_audio_def audio_cache_round_trip [OF assms(1)] latin1_append latin1_str)

text \<open>
  Claim C4, at an input where the code departs from it. The generate endpoint accepts
  the identifier made of the code points U+8B66 and U+5831, stores the audio under it
  and returns the retrieval path for it; the retrieval endpoint, asked for that
  identifier, finds the entry and then raises \<open>UnicodeEncodeError\<close> while building the
  response, so the stored bytes are not returned.
\<close>

theorem get_audio_wide_identifier:
  "generate_voice cfg_full env_ok voice_req_wide initial_world =
     (Inr \<lparr>vr_threat_id = [0x8B66, 0x5831],
           vr_audio_url = str ''/api/audio/'' @ [0x8B66, 0x5831],
           vr_duration_estimate = 1\<rparr>,
      cache_store [0x8B66, 0x5831] (content resp_audio)
        (initial_world\<lparr>posts := [tts_request cfg_full voice_req_wide]\<rparr>))
   \<and> audio_cache (snd (generate_voice cfg_full env_ok voice_req_wide initial_world))
       [0x8B66, 0x5831] = Some (content resp_audio)
   \<and> get_audio (snd (generate_voice cfg_full env_ok voice_req_wide initial_world))
       [0x8B66, 0x5831] = Inl (OtherError (str ''UnicodeEncodeError''))"
  by (simp add: generate_voice_def get_audio_def cfg_full_def env_ok_def sample_strftime_def
      tts_request_def voice_req_wide_def post_def or_timestamp_def truthy_def resp_audio_def
      resp_teams_ok_def initial_world_def cache_store_def latin1_def str_def)

text \<open>
  Claim C8. Starting from the empty cache of a fresh process, an identifier that no
  write has used is answered with 404 and no payload.
\<close>

theorem get_audio_never_stored:
  assumes "threat_id \<notin> fst ` set ops"
  shows "get_audio (store_all ops initial_world) threat_id =
           Inl (HTTPException 404 (str ''Audio not found''))"
proof -
  have "audio_cache (store_all ops initial_world) threat_id =
          audio_cache initial_world threat_id"
    using assms by (rule store_all_other)
  then show ?thesis
    by (simp add: get_audio_def initial_world_def)
qed

theorem get_audio_never_stored_witness:
  "str ''VOC-X'' \<notin> fst ` set [(str ''VOC-TEST1'', [0x49 :: 8 word])] \<and>
   get_audio (store_all [(str ''VOC-TEST1'', [0x49])] initial_world) (str ''VOC-X'') =
     Inl (HTTPException 404 (str ''Audio not found''))"
  using get_audio_never_stored [of "str ''VOC-X''" "[(str ''VOC-TEST1'', [0x49])]"]
  by (simp add: str_def)

section \<open>Capabilities and the not-configured failures\<close>

text \<open>
  Claim C2, at the input where the code departs from it. With account id and auth token
  set and the sender number empty, \<open>GET /\<close> reports the telephony capability as enabled,
  while \<open>POST /api/call\<close> under the same configuration answers that the telephony
  provider is not configured.
\<close>

theorem root_twilio_flag_without_sender:
  "TWILIO_FROM cfg_no_sender = [] \<and>
   twilio (caps (root cfg_no_sender)) \<and>
   make_call cfg_no_sender env_ok call_req0 initial_world =
     (Inl (HTTPException 503 (str ''Twilio not configured'')), initial_world)"
  by (simp add: cfg_no_sender_def cfg_full_def root_def make_call_def str_def)

text \<open>
  Claim C3. Whatever the request body and the state, an endpoint whose capability lacks
  a required configuration value fails with 503 and a detail naming the provider:
  \<open>generate\<close> without the speech API key, \<open>call\<close> without any of account id, auth token
  or sender number, \<open>teams\<close> without the webhook URL.
\<close>

theorem not_configured_503:
  "(ELEVENLABS_KEY cfg = [] \<longrightarrow>
      fst (generate_voice cfg e vreq w) =
        Inl (HTTPException 503 (str ''ElevenLabs not configured'')))
   \<and> (TWILIO_SID cfg = [] \<or> TWILIO_TOKEN cfg = [] \<or> TWILIO_FROM cfg = [] \<longrightarrow>
      fst (make_call cfg e creq w) =
        Inl (HTTPException 503 (str ''Twilio not configured'')))
   \<and> (TEAMS_WEBHOOK cfg = [] \<longrightarrow>
      fst (send_teams cfg e treq w) =
        Inl (HTTPException 503 (str ''Teams webhook not configured'')))"
  by (simp add: generate_voice_def make_call_def send_teams_def)

theorem not_configured_503_witness:
  "ELEVENLABS_KEY cfg_none = []
   \<and> fst (generate_voice cfg_none env_ok voice_req0 initial_world) =
       Inl (HTTPException 503 (str ''ElevenLabs not configured''))
   \<and> TWILIO_FROM cfg_none = []
   \<and> fst (make_call cfg_none env_ok call_req0 initial_world) =
       Inl (HTTPException 503 (str ''Twilio not configured''))
   \<and> TEAMS_WEBHOOK cfg_none = []
   \<and> fst (send_teams cfg_none env_ok teams_req0 initial_world) =
       Inl (HTTPException 503 (str ''Teams webhook not configured''))"
  using not_configured_503 [of cfg_none env_ok voice_req0 initial_world call_req0 teams_req0]
  by (simp add: cfg_none_def str_def)

text \<open>
  Claim C7. With any of account id, auth token or sender number empty, \<open>POST /api/call\<close>
  fails with 503 \<open>Twilio not configured\<close> and leaves the whole state, the Audio Cache
  included, as it was.
\<close>

theorem make_call_disabled:
  assumes "TWILIO_SID cfg = [] \<or> TWILIO_TOKEN cfg = [] \<or> TWILIO_FROM cfg = []"
  shows "make_call cfg e req w = (Inl (HTTPException 503 (str ''Twilio not configured'')), w)
         \<and> audio_cache (snd (make_call cfg e req w)) = audio_cache w"
  using assms by (auto simp: make_call_def)

theorem make_call_disabled_witness:
  "(TWILIO_SID cfg_chat_sid = [] \<or> TWILIO_TOKEN cfg_chat_sid = []
      \<or> TWILIO_FROM cfg_chat_sid = [])
   \<and> make_call cfg_chat_sid env_ok call_req0 initial_world =
       (Inl (HTTPException 503 (str ''Twilio not configured'')), initial_world)
   \<and> audio_cache (snd (make_call cfg_chat_sid env_ok call_req0 initial_world)) =
       audio_cache initial_world"
  using make_call_disabled [of cfg_chat_sid env_ok call_req0 initial_world]
  by (simp add: cfg_chat_sid_def cfg_chat_only_def cfg_none_def str_def)

text \<open>
  Claim C9. With the telephony capability fully configured and the speech API key
  empty, \<open>POST /api/call\<close> fails with 503 \<open>ElevenLabs not configured\<close>; the state is as it
  was, so no request has been sent to any provider.
\<close>

theorem make_call_without_speech:
  assumes "TWILIO_SID cfg \<noteq> []" and "TWILIO_TOKEN cfg \<noteq> []" and "TWILIO_FROM cfg \<noteq> []"
    and "ELEVENLABS_KEY cfg = []"
  shows "make_call cfg e req w = (Inl (HTTPException 503 (str ''ElevenLabs not configured'')), w)
         \<and> posts (snd (make_call cfg e req w)) = posts w"
  using assms by (simp add: make_call_def generate_voice_def)

theorem make_call_without_speech_witness:
  "TWILIO_SID cfg_no_speech \<noteq> [] \<and> TWILIO_TOKEN cfg_no_speech \<noteq> []
   \<and> TWILIO_FROM cfg_no_speech \<noteq> [] \<and> ELEVENLABS_KEY cfg_no_speech = []
   \<and> make_call cfg_no_speech env_ok call_req0 initial_world =
       (Inl (HTTPException 503 (str ''ElevenLabs not configured'')), initial_world)
   \<and> posts (snd (make_call cfg_no_speech env_ok call_req0 initial_world)) =
       posts initial_world"
  using make_call_without_speech [of cfg_no_speech env_ok call_req0 initial_world]
  by (simp add: cfg_no_speech_def cfg_full_def str_def)

section \<open>Speech synthesis\<close>

lemma or_timestamp_posts: "posts (snd (or_timestamp e pfx tid w)) = posts w"
  by (simp add: or_timestamp_def read_clock_def)

lemma or_timestamp_cache: "audio_cache (snd (or_timestamp e pfx tid w)) = audio_cache w"
  by (simp add: or_timestamp_def read_clock_def)

text \<open>
  When the speech API key is set and the provider answers 200, \<open>generate_voice\<close> returns
  the resolved identifier, the retrieval path and the estimate, and has stored the
  answer's content under the identifier.
\<close>

lemma generate_voice_ok:
  assumes "ELEVENLABS_KEY cfg \<noteq> []"
    and "http_post e (length (posts w)) (tts_request cfg req) = Responded resp"
    and "status_code resp = 200"
  shows "generate_voice cfg e req w =
           (Inr \<lparr>vr_threat_id = fst (or_timestamp e (str ''VOC-'') (v_threat_id req) w),
                 vr_audio_url =
                   str ''/api/audio/'' @ fst (or_timestamp e (str ''VOC-'') (v_threat_id req) w),
                 vr_duration_estimate = length (v_message req) div 15\<rparr>,
            cache_store (fst (or_timestamp e (str ''VOC-'') (v_threat_id req) w)) (content resp)
              ((snd (or_timestamp e (str ''VOC-'') (v_threat_id req) w))
                 \<lparr>posts := posts w @ [tts_request cfg req]\<rparr>))"
  using assms
  by (simp add: generate_voice_def post_def or_timestamp_posts case_prod_beta)

text \<open>
  The scenario of the generate endpoint followed by the retrieval endpoint: the audio
  just synthesised is what \<open>get_audio\<close> returns under the resolved identifier, when
  that identifier has no code point above 255.
\<close>

lemma generate_then_get_audio:
  assumes "ELEVENLABS_KEY cfg \<noteq> []"
    and "http_post e (length (posts w)) (tts_request cfg req) = Responded resp"
    and "status_code resp = 200"
    and "latin1 (fst (or_timestamp e (str ''VOC-'') (v_threat_id req) w))"
  shows "get_audio (snd (generate_voice cfg e req w))
           (fst (or_timestamp e (str ''VOC-'') (v_threat_id req) w)) =
         Inr \<lparr>ar_content = content resp, ar_media_type = str ''audio/mpeg'',
              ar_content_disposition =
                str ''inline; filename=''
                @ fst (or_timestamp e (str ''VOC-'') (v_threat_id req) w) @ str ''.mp3''\<rparr>"
  using assms(4)
  by (simp add: generate_voice_ok [OF assms(1-3)] get_audio_def cache_store_def
      latin1_append latin1_str)

text \<open>\<open>generate_voice\<close> changes the cache by at most one write, under the resolved identifier.\<close>

lemma generate_voice_cache:
  "audio_cache (snd (generate_voice cfg e req w)) = audio_cache w
   \<or> (\<exists>b. audio_cache (snd (generate_voice cfg e req w)) =
            audio_cache (cache_store (fst (or_timestamp e (str ''VOC-'') (v_threat_id req) w)) b w))"
  by (auto simp: generate_voice_def post_def cache_store_def case_prod_beta or_timestamp_cache
      split: http_outcome.splits)

text \<open>
  Claim C5. Whenever speech synthesis succeeds, the returned \<open>duration_estimate\<close> is the
  length of the message divided by 15, rounded down; this holds for every message, the
  non-empty ones included.
\<close>

theorem duration_estimate_floor:
  assumes "generate_voice cfg e req w = (Inr r, w')"
  shows "vr_duration_estimate r = length (v_message req) div 15"
  using assms
  by (auto simp: generate_voice_def post_def split: if_splits prod.splits http_outcome.splits)

theorem duration_estimate_floor_witness:
  "generate_voice cfg_full env_ok voice_req0 initial_world =
     (Inr \<lparr>vr_threat_id = str ''VOC-TEST1'', vr_audio_url = str ''/api/audio/VOC-TEST1'',
           vr_duration_estimate = 1\<rparr>,
      cache_store (str ''VOC-TEST1'') (content resp_audio)
        (initial_world\<lparr>posts := [tts_request cfg_full voice_req0]\<rparr>))
   \<and> (1 :: nat) = length (v_message voice_req0) div 15"
proof -
  have h: "generate_voice cfg_full env_ok voice_req0 initial_world =
     (Inr \<lparr>vr_threat_id = str ''VOC-TEST1'', vr_audio_url = str ''/api/audio/VOC-TEST1'',
           vr_duration_estimate = 1\<rparr>,
      cache_store (str ''VOC-TEST1'') (content resp_audio)
        (initial_world\<lparr>posts := [tts_request cfg_full voice_req0]\<rparr>))"
    by (simp add: generate_voice_def cfg_full_def env_ok_def sample_strftime_def tts_request_def
        voice_req0_def post_def or_timestamp_def truthy_def resp_audio_def resp_teams_ok_def
        initial_world_def str_def)
  from duration_estimate_floor [OF h] h show ?thesis by simp
qed

section \<open>The call endpoint when the telephony provider refuses\<close>

text \<open>
  Claim C10. With telephony and speech configured, the speech provider answering 200 and
  the telephony provider answering with a status other than 200 and 201,
  \<open>POST /api/call\<close> raises the upstream error with that status, and the state it leaves
  still holds the synthesised audio in the cache under the resolved identifier.
\<close>

theorem make_call_upstream_error_keeps_audio:
  assumes "TWILIO_SID cfg \<noteq> []" and "TWILIO_TOKEN cfg \<noteq> []" and "TWILIO_FROM cfg \<noteq> []"
    and "ELEVENLABS_KEY cfg \<noteq> []"
    and "http_post e (length (posts w))
           (tts_request cfg \<lparr>v_message = c_message req, v_language = str ''de'',
                             v_threat_id = c_threat_id req\<rparr>) = Responded r1"
    and "status_code r1 = 200"
    and "http_post e (Suc (length (posts w))) (calls_request cfg req) = Responded r2"
    and "status_code r2 \<notin> {200, 201}"
  shows "fst (make_call cfg e req w) =
           Inl (HTTPException (status_code r2) (str ''Twilio error: '' @ resp_text r2))
         \<and> audio_cache (snd (make_call cfg e req w))
             (fst (or_timestamp e (str ''VOC-'') (c_threat_id req) w)) = Some (content r1)"
proof -
  let ?vreq = "\<lparr>v_message = c_message req, v_language = str ''de'', v_threat_id = c_threat_id req\<rparr>"
  from assms(4-6) have "generate_voice cfg e ?vreq w = 
           (Inr \<lparr>vr_threat_id = fst (or_timestamp e (str ''VOC-'') (c_threat_id req) w),
                 vr_audio_url =
                   str ''/api/audio/'' @ fst (or_timestamp e (str ''VOC-'') (c_threat_id req) w),
                 vr_duration_estimate = length (c_message req) div 15\<rparr>,
            cache_store (fst (or_timestamp e (str ''VOC-'') (c_threat_id req) w)) (content r1)
              ((snd (or_timestamp e (str ''VOC-'') (c_threat_id req) w))
                 \<lparr>posts := posts w @ [tts_request cfg ?vreq]\<rparr>))"
    using generate_voice_ok [of cfg e w ?vreq r1] by simp
  with assms show ?thesis
    by (simp add: make_call_def post_def cache_store_def)
qed


theorem make_call_upstream_error_keeps_audio_witness:
  "TWILIO_SID cfg_full \<noteq> [] \<and> TWILIO_TOKEN cfg_full \<noteq> [] \<and> TWILIO_FROM cfg_full \<noteq> []
   \<and> ELEVENLABS_KEY cfg_full \<noteq> []
   \<and> status_code resp_audio = 200 \<and> status_code resp_unauthorized \<notin> {200, 201}
   \<and> fst (make_call cfg_full env_call_refused call_req0 initial_world) =
       Inl (HTTPException 401 (str ''Twilio error: Authenticate''))
   \<and> audio_cache (snd (make_call cfg_full env_call_refused call_req0 initial_world))
       (str ''VOC-20240131093000'') = Some [0x49, 0x44, 0x33]"
  using make_call_upstream_error_keeps_audio
    [of cfg_full env_call_refused initial_world call_req0 resp_audio resp_unauthorized]
  by (simp add: cfg_full_def env_call_refused_def env_ok_def sample_strftime_def call_req0_def
      resp_audio_def resp_unauthorized_def initial_world_def tts_request_def calls_request_def
      or_timestamp_def truthy_def read_clock_def str_def)

section \<open>The alert orchestrator\<close>

text \<open>
  Claim C6. Dispatch with channels \<open>["voice"]\<close>, the speech API key set, no identifier
  from the caller and the speech provider answering 200: the result carries the
  identifier \<open>ALT-\<close> followed by the timestamp, and under \<open>voice\<close> the same record a
  direct call of the generate endpoint with that identifier returns, whose
  \<open>threat_id\<close> is that shared identifier; its first four characters are \<open>ALT-\<close>, so it
  is not a \<open>VOC-\<close> identifier.
\<close>

theorem alert_voice_shared_identifier:
  assumes "ELEVENLABS_KEY cfg \<noteq> []"
    and "\<not> truthy threat_id0"
    and "alt = str ''ALT-'' @ strftime_now e (clock_reads w) (str ''%Y%m%d%H%M%S'')"
    and "http_post e (length (posts w))
           (tts_request cfg \<lparr>v_message = message, v_language = str ''de'',
                             v_threat_id = Some alt\<rparr>) = Responded resp"
    and "status_code resp = 200"
  shows "fst (send_alert cfg e message [str ''voice''] phone threat_id0 w) =
           \<lparr>al_threat_id = alt,
            al_channels =
              [str ''voice'' \<mapsto>
                 VoiceEntry \<lparr>vr_threat_id = alt, vr_audio_url = str ''/api/audio/'' @ alt,
                             vr_duration_estimate = length message div 15\<rparr>]\<rparr>
         \<and> fst (generate_voice cfg e
                  \<lparr>v_message = message, v_language = str ''de'', v_threat_id = Some alt\<rparr> w) =
             Inr \<lparr>vr_threat_id = alt, vr_audio_url = str ''/api/audio/'' @ alt,
                  vr_duration_estimate = length message div 15\<rparr>
         \<and> take 4 alt = str ''ALT-''"
proof -
  let ?vreq = "\<lparr>v_message = message, v_language = str ''de'', v_threat_id = Some alt\<rparr>"
  let ?w1 = "w\<lparr>clock_reads := Suc (clock_reads w)\<rparr>"
  have alt: "truthy (Some alt)" "take 4 alt = str ''ALT-''"
    using assms(3) by (simp_all add: truthy_def str_def)
  have ts: "or_timestamp e (str ''ALT-'') threat_id0 w = (alt, ?w1)"
    using assms(2,3) by (simp add: or_timestamp_def read_clock_def)
  have inner: "or_timestamp e (str ''VOC-'') (Some alt) w' = (alt, w')" for w'
    using alt by (simp add: or_timestamp_def)
  have g1: "generate_voice cfg e ?vreq ?w1 =
          (Inr \<lparr>vr_threat_id = alt, vr_audio_url = str ''/api/audio/'' @ alt,
                vr_duration_estimate = length message div 15\<rparr>,
           cache_store alt (content resp) (?w1\<lparr>posts := posts w @ [tts_request cfg ?vreq]\<rparr>))"
    using generate_voice_ok [of cfg e ?w1 ?vreq resp] assms(1,4,5) by (simp add: inner)
  have g0: "generate_voice cfg e ?vreq w =
          (Inr \<lparr>vr_threat_id = alt, vr_audio_url = str ''/api/audio/'' @ alt,
                vr_duration_estimate = length message div 15\<rparr>,
           cache_store alt (content resp) (w\<lparr>posts := posts w @ [tts_request cfg ?vreq]\<rparr>))"
    using generate_voice_ok [of cfg e w ?vreq resp] assms(1,4,5) by (simp add: inner)
  have "fst (send_alert cfg e message [str ''voice''] phone threat_id0 w) =
           \<lparr>al_threat_id = alt,
            al_channels =
              [str ''voice'' \<mapsto>
                 VoiceEntry \<lparr>vr_threat_id = alt, vr_audio_url = str ''/api/audio/'' @ alt,
                             vr_duration_estimate = length message div 15\<rparr>]\<rparr>"
    using assms(1) by (simp add: send_alert_def ts g1 str_eq_iff)
  with g0 alt(2) show ?thesis by simp
qed

theorem alert_voice_shared_identifier_witness:
  "ELEVENLABS_KEY cfg_full \<noteq> [] \<and> \<not> truthy None \<and> status_code resp_audio = 200
   \<and> fst (send_alert cfg_full env_ok (str ''test'') [str ''voice''] None None initial_world) =
       \<lparr>al_threat_id = str ''ALT-20240131093000'',
        al_channels =
          [str ''voice'' \<mapsto>
             VoiceEntry \<lparr>vr_threat_id = str ''ALT-20240131093000'',
                         vr_audio_url = str ''/api/audio/ALT-20240131093000'',
                         vr_duration_estimate = 0\<rparr>]\<rparr>"
  using alert_voice_shared_identifier
    [of cfg_full None "str ''ALT-20240131093000''" env_ok initial_world "str ''test''" resp_audio None]
  by (simp add: cfg_full_def env_ok_def sample_strftime_def tts_request_def resp_audio_def
      resp_teams_ok_def initial_world_def truthy_def str_def)

text \<open>
  Claim C1 as stated fails: with the chat webhook set and the whole telephony
  configuration empty, dispatch to \<open>teams\<close> and \<open>call\<close> with a phone number returns a
  result map with a success entry under \<open>teams\<close> and no key \<open>call\<close> at all.
\<close>

theorem alert_call_key_omitted:
  "TEAMS_WEBHOOK cfg_chat_only \<noteq> [] \<and> TWILIO_SID cfg_chat_only = []
   \<and> al_channels (fst (send_alert cfg_chat_only env_ok (str ''test'') [str ''teams'', str ''call'']
                          (Some (str ''+4915112345678'')) None initial_world)) (str ''teams'') =
       Some (TeamsEntry \<lparr>tr_status = str ''sent'', tr_threat_id = str ''ALT-20240131093000'',
                          tr_channel = str ''teams'', tr_audio_generated = False\<rparr>)
   \<and> al_channels (fst (send_alert cfg_chat_only env_ok (str ''test'') [str ''teams'', str ''call'']
                          (Some (str ''+4915112345678'')) None initial_world)) (str ''call'') = None"
  by (simp add: send_alert_def send_teams_def cfg_chat_only_def cfg_none_def env_ok_def
      sample_strftime_def tts_request_def resp_audio_def resp_teams_ok_def initial_world_def
      or_timestamp_def truthy_def read_clock_def post_def str_def)

text \<open>
  Claim C1, amended. Dispatch to channels that include \<open>teams\<close> and \<open>call\<close>, with a
  non-empty phone number, the chat webhook set, telephony disabled (account id, auth
  token or sender number empty) and the chat client's own call succeeding with result
  \<open>r\<close>: the result map holds the success entry \<open>r\<close> under \<open>teams\<close>; the key \<open>call\<close> is
  omitted when the account id is empty, and otherwise holds the error entry of the 503
  \<open>Twilio not configured\<close> failure.
\<close>

theorem alert_teams_and_disabled_call:
  assumes "str ''teams'' \<in> set channels" and "str ''call'' \<in> set channels" and "truthy phone"
    and "TEAMS_WEBHOOK cfg \<noteq> []"
    and "TWILIO_SID cfg = [] \<or> TWILIO_TOKEN cfg = [] \<or> TWILIO_FROM cfg = []"
    and "send_teams cfg e
           \<lparr>t_message = message,
            t_threat_id = Some (fst (or_timestamp e (str ''ALT-'') threat_id0 w)),
            t_include_audio = True\<rparr>
           (snd (or_timestamp e (str ''ALT-'') threat_id0 w)) = (Inr r, w')"
  shows "al_channels (fst (send_alert cfg e message channels phone threat_id0 w)) (str ''teams'') =
           Some (TeamsEntry r)
         \<and> al_channels (fst (send_alert cfg e message channels phone threat_id0 w)) (str ''call'') =
             (if TWILIO_SID cfg = [] then None
              else Some (ErrorEntry
                     (exc_str e (HTTPException 503 (str ''Twilio not configured'')))))"
proof -
  obtain tid w1 where ts: "or_timestamp e (str ''ALT-'') threat_id0 w = (tid, w1)"
    by (cases "or_timestamp e (str ''ALT-'') threat_id0 w")
  have st: "send_teams cfg e
              \<lparr>t_message = message, t_threat_id = Some tid, t_include_audio = True\<rparr> w1 =
            (Inr r, w')"
    using assms(6) by (simp add: ts)
  have call: "make_call cfg e creq w2 =
                (Inl (HTTPException 503 (str ''Twilio not configured'')), w2)"
    for creq w2
    using assms(5) by (auto simp: make_call_def)
  show ?thesis
    using assms(1-4)
    by (simp add: send_alert_def Let_def ts st call str_eq_iff split: prod.splits sum.splits)
qed

theorem alert_teams_and_disabled_call_witness:
  "str ''teams'' \<in> set [str ''teams'', str ''call'']
   \<and> str ''call'' \<in> set [str ''teams'', str ''call'']
   \<and> truthy (Some (str ''+4915112345678'')) \<and> TEAMS_WEBHOOK cfg_chat_sid \<noteq> []
   \<and> TWILIO_TOKEN cfg_chat_sid = []
   \<and> al_channels
        (fst (send_alert cfg_chat_sid env_ok (str ''test'') [str ''teams'', str ''call'']
                (Some (str ''+4915112345678'')) None initial_world)) (str ''teams'') =
       Some (TeamsEntry \<lparr>tr_status = str ''sent'', tr_threat_id = str ''ALT-20240131093000'',
                          tr_channel = str ''teams'', tr_audio_generated = False\<rparr>)
   \<and> al_channels
        (fst (send_alert cfg_chat_sid env_ok (str ''test'') [str ''teams'', str ''call'']
                (Some (str ''+4915112345678'')) None initial_world)) (str ''call'') =
       Some (ErrorEntry (str ''503: Twilio not configured''))"
proof -
  have h: "send_teams cfg_chat_sid env_ok
             \<lparr>t_message = str ''test'',
              t_threat_id = Some (fst (or_timestamp env_ok (str ''ALT-'') None initial_world)),
              t_include_audio = True\<rparr>
             (snd (or_timestamp env_ok (str ''ALT-'') None initial_world)) =
           (Inr \<lparr>tr_status = str ''sent'', tr_threat_id = str ''ALT-20240131093000'',
                 tr_channel = str ''teams'', tr_audio_generated = False\<rparr>,
            \<lparr>audio_cache = Map.empty, clock_reads = 2,
             posts = [WebhookPost (str ''https://hooks.example/teams'')
                        \<lparr>activitySubtitle = str ''Threat ID: ALT-20240131093000'',
                         time_fact = str ''2024-01-31 09:30:00 UTC'', card_text = str ''test''\<rparr>]\<rparr>)"
    by (simp add: send_teams_def cfg_chat_sid_def cfg_chat_only_def cfg_none_def env_ok_def
        sample_strftime_def tts_request_def resp_audio_def resp_teams_ok_def initial_world_def
        or_timestamp_def truthy_def read_clock_def post_def str_def)
  show ?thesis
    using alert_teams_and_disabled_call
      [of "[str ''teams'', str ''call'']" "Some (str ''+4915112345678'')" cfg_chat_sid env_ok
        "str ''test''" None initial_world, OF _ _ _ _ _ h]
    by (simp add: truthy_def cfg_chat_sid_def cfg_chat_only_def cfg_none_def env_ok_def
        sample_strftime_def tts_request_def exception_str_503 str_def)
qed

end
